theory Spec2Isabelle
  imports Complex_Main "HOL-Library.Char_ord" "HOL-Library.List_Lexorder"
    "HOL-Library.Product_Lexorder"
begin


section \<open>Errors raised by the workflow helpers\<close>

text \<open>
  Every \<^verbatim>\<open>raise\<close> of the modelled functions, and every exception of the Python
  runtime that a modelled statement can throw, is a value of this type. Functions that
  can raise return \<open>py_error + 'a\<close>, with \<open>Inl\<close> for the exception.
\<close>

datatype py_error =
    ZeroDivisionError
  | RuntimeError string
  | IOError string
  | OSError string
  | AssertionError string
  | TypeError string
  | ValueError string

section \<open>partition_indexes (workflow/workflow_helpers.py)\<close>

text \<open>
  \<^verbatim>\<open>xrange(n)\<close> for a Python integer: the integers \<open>0, ..., n - 1\<close>, empty when
  \<open>n \<le> 0\<close>.
\<close>

definition xrange :: "int \<Rightarrow> int list" where
  "xrange n = map int [0..<nat n]"

text \<open>
  The first loop of \<^verbatim>\<open>partition_indexes\<close>:
  \<^verbatim>\<open>
    a = 0
    for i in xrange(numberofpartitions):
        b = a + chunksize + (i < remainder)
        chunk_indices.append([a, b])
        a = b
  \<close>
  The loop variable \<open>a\<close> is threaded through the recursion; the boolean
  \<^verbatim>\<open>(i < remainder)\<close> is added as 0 or 1, as Python does.
\<close>

fun chunk_loop :: "int \<Rightarrow> int \<Rightarrow> int \<Rightarrow> int list \<Rightarrow> (int \<times> int) list" where
  "chunk_loop chunksize remainder a [] = []"
| "chunk_loop chunksize remainder a (i # is) =
     (let b = a + chunksize + (if i < remainder then 1 else 0)
      in (a, b) # chunk_loop chunksize remainder b is)"

text \<open>
  \<^verbatim>\<open>partition_indexes(totalsize, numberofpartitions, offset=0)\<close>. The division is the
  integer division of Python 2.7 (floor division, which is \<open>div\<close> on \<open>int\<close>); it raises
  \<^verbatim>\<open>ZeroDivisionError\<close> for zero partitions. The second loop adds the offset to both
  ends of every pair.
\<close>

definition partition_indexes :: "int \<Rightarrow> int \<Rightarrow> int \<Rightarrow> py_error + (int \<times> int) list" where
  "partition_indexes totalsize numberofpartitions offset =
     (if numberofpartitions = 0 then Inl ZeroDivisionError
      else
        let chunksize = totalsize div numberofpartitions;
            remainder = totalsize - chunksize * numberofpartitions;
            chunk_indices = chunk_loop chunksize remainder 0 (xrange numberofpartitions)
        in Inr (map (\<lambda>(a, b). (a + offset, b + offset)) chunk_indices))"

text \<open>The sizes of the chunks that a list of index pairs describes (\<^verbatim>\<open>xs[i:j]\<close>).\<close>

definition chunk_sizes :: "(int \<times> int) list \<Rightarrow> int list" where
  "chunk_sizes ps = map (\<lambda>(a, b). b - a) ps"

text \<open>
  A list of index pairs is contiguous from \<open>a\<close> to \<open>b\<close> when the first pair starts at
  \<open>a\<close>, every pair starts where the one before it ended, and the last one ends at \<open>b\<close>.
\<close>

fun contiguous :: "int \<Rightarrow> (int \<times> int) list \<Rightarrow> int \<Rightarrow> bool" where
  "contiguous a [] b = (a = b)"
| "contiguous a ((i, j) # ps) b = (i = a \<and> contiguous j ps b)"

section \<open>Floating-point values of numpy and pandas\<close>

text \<open>
  A float64 of the source is a finite number, one of the two infinities, or NaN (which is
  also the null of a pandas float column). Finite values are modelled as reals: rounding,
  overflow and the sign of zero are not modelled. The operations below are the IEEE rules
  for the special values that numpy follows (it warns and carries on where Python's own
  float division raises).
\<close>

datatype npfloat = Fin real | PInf | NInf | NaN

fun np_isnan :: "npfloat \<Rightarrow> bool" where
  "np_isnan NaN = True"
| "np_isnan _ = False"

text \<open>An infinity with the sign of a real factor; NaN for \<open>0 * inf\<close> and \<open>0 / 0\<close>.\<close>

definition inf_signed :: "real \<Rightarrow> npfloat" where
  "inf_signed x = (if 0 < x then PInf else if x < 0 then NInf else NaN)"

fun np_neg :: "npfloat \<Rightarrow> npfloat" where
  "np_neg (Fin x) = Fin (- x)"
| "np_neg PInf = NInf"
| "np_neg NInf = PInf"
| "np_neg NaN = NaN"

fun np_abs :: "npfloat \<Rightarrow> npfloat" where
  "np_abs (Fin x) = Fin \<bar>x\<bar>"
| "np_abs PInf = PInf"
| "np_abs NInf = PInf"
| "np_abs NaN = NaN"

fun np_add :: "npfloat \<Rightarrow> npfloat \<Rightarrow> npfloat" where
  "np_add NaN _ = NaN"
| "np_add _ NaN = NaN"
| "np_add (Fin x) (Fin y) = Fin (x + y)"
| "np_add PInf NInf = NaN"
| "np_add NInf PInf = NaN"
| "np_add PInf _ = PInf"
| "np_add _ PInf = PInf"
| "np_add NInf _ = NInf"
| "np_add _ NInf = NInf"

definition np_sub :: "npfloat \<Rightarrow> npfloat \<Rightarrow> npfloat" where
  "np_sub a b = np_add a (np_neg b)"

fun np_mul :: "npfloat \<Rightarrow> npfloat \<Rightarrow> npfloat" where
  "np_mul NaN _ = NaN"
| "np_mul _ NaN = NaN"
| "np_mul (Fin x) (Fin y) = Fin (x * y)"
| "np_mul (Fin x) PInf = inf_signed x"
| "np_mul (Fin x) NInf = inf_signed (- x)"
| "np_mul PInf (Fin y) = inf_signed y"
| "np_mul NInf (Fin y) = inf_signed (- y)"
| "np_mul PInf PInf = PInf"
| "np_mul NInf NInf = PInf"
| "np_mul PInf NInf = NInf"
| "np_mul NInf PInf = NInf"



text \<open>\<^verbatim>\<open>np.log10\<close>, with the same special cases.\<close>

fun np_log10 :: "npfloat \<Rightarrow> npfloat" where
  "np_log10 (Fin x) = (if 0 < x then Fin (log 10 x) else if x = 0 then NInf else NaN)"
| "np_log10 PInf = PInf"
| "np_log10 NInf = NaN"
| "np_log10 NaN = NaN"


text \<open>The comparison \<open>a <= b\<close>: false whenever an operand is NaN.\<close>

fun np_le :: "npfloat \<Rightarrow> npfloat \<Rightarrow> bool" where
  "np_le NaN _ = False"
| "np_le _ NaN = False"
| "np_le (Fin x) (Fin y) = (x \<le> y)"
| "np_le NInf _ = True"
| "np_le _ PInf = True"
| "np_le _ _ = False"

definition np_ge :: "npfloat \<Rightarrow> npfloat \<Rightarrow> bool" where
  "np_ge a b = np_le b a"


section \<open>The merged forward/reverse table (workflow/magi_workflow_scoring.py)\<close>

text \<open>
  A row of the table that \<^verbatim>\<open>merge_g2r_and_r2g_searches\<close> builds, with the columns the
  scoring reads. The reaction-id columns are numeric (\<^verbatim>\<open>pd.to_numeric\<close>) and hold NaN
  where the outer merge found no partner: \<open>None\<close> is that null. \<^verbatim>\<open>level\<close> is the
  search level, null in a row that has no compound side. The table is a list of rows:
  the merge resets the index, so every row has its own label and an assignment through
  \<^verbatim>\<open>df.loc[idx, col]\<close> changes exactly the rows selected by the mask behind \<open>idx\<close>.
\<close>

record merged_row =
  original_compound :: string
  level :: "nat option"
  compound_score :: npfloat
  reaction_id_r2g :: "int option"
  reaction_id_g2r :: "int option"
  e_score_r2g :: npfloat
  e_score_g2r :: npfloat

text \<open>
  The comparison \<^verbatim>\<open>==\<close> of two numeric columns, row by row: a null (NaN) equals
  nothing, not even another null. \<^verbatim>\<open>!=\<close> is its negation, so it is true when either
  side is null.
\<close>

fun ids_eq :: "int option \<Rightarrow> int option \<Rightarrow> bool" where
  "ids_eq (Some x) (Some y) = (x = y)"
| "ids_eq _ _ = False"

definition ids_ne :: "int option \<Rightarrow> int option \<Rightarrow> bool" where
  "ids_ne a b = (\<not> ids_eq a b)"

text \<open>
  \<^verbatim>\<open>slc[[a, b]].min(axis=1)\<close> and \<^verbatim>\<open>.max(axis=1)\<close> on one row: pandas skips nulls,
  so the result is null only when both values are.
\<close>

definition row_min :: "npfloat \<Rightarrow> npfloat \<Rightarrow> npfloat" where
  "row_min a b = (if np_isnan a then b else if np_isnan b then a else if np_le a b then a else b)"

definition row_max :: "npfloat \<Rightarrow> npfloat \<Rightarrow> npfloat" where
  "row_max a b = (if np_isnan a then b else if np_isnan b then a else if np_le a b then b else a)"

text \<open>
  \<^verbatim>\<open>reciprocal_agreement(df, closeness_threshold)\<close>, as the sequence of column
  assignments of the source. The column \<^verbatim>\<open>reciprocal_score\<close> does not exist in the
  merged table; the first assignment creates it, null outside the agreeing rows (for a
  table with at least one row; what the assignment does to a table without rows depends
  on the pandas version, and the model returns the empty table).
  \<^item> \<open>agree\<close>: the mask \<^verbatim>\<open>df['reaction_id_r2g'] == df['reaction_id_g2r']\<close>, set to 2;
  \<^item> \<open>close\<close>: among the rows of the mask \<^verbatim>\<open>!=\<close>, those whose smaller e-score is at
    least the larger times the threshold, set to 1;
  \<^item> \<open>wrong\<close>: the rows whose score is still null, set to 0.01;
  \<^item> \<open>incomparable\<close>: the rows with a null e-score, set to 0.1.
\<close>

definition reciprocal_agreement :: "merged_row list \<Rightarrow> real \<Rightarrow> (merged_row \<times> npfloat) list" where
  "reciprocal_agreement df closeness_threshold =
     (let agree = map (\<lambda>r. ids_eq (reaction_id_r2g r) (reaction_id_g2r r)) df;
          score1 = map (\<lambda>a. if a then Fin 2 else NaN) agree;
          disagree = map (\<lambda>r. ids_ne (reaction_id_r2g r) (reaction_id_g2r r)) df;
          close = map2 (\<lambda>d r. d \<and>
                     np_ge (row_min (e_score_r2g r) (e_score_g2r r))
                           (np_mul (row_max (e_score_r2g r) (e_score_g2r r))
                                   (Fin closeness_threshold))) disagree df;
          score2 = map2 (\<lambda>c s. if c then Fin 1 else s) close score1;
          wrong = map np_isnan score2;
          score3 = map2 (\<lambda>w s. if w then Fin (1 / 100) else s) wrong score2;
          incomparable = map (\<lambda>r. np_isnan (e_score_r2g r) \<or> np_isnan (e_score_g2r r)) df;
          score4 = map2 (\<lambda>i s. if i then Fin (1 / 10) else s) incomparable score3
      in zip df score4)"







text \<open>The first error of a list of results, or all the values.\<close>

fun sequence_sum :: "('e + 'a) list \<Rightarrow> 'e + 'a list" where
  "sequence_sum [] = Inr []"
| "sequence_sum (Inl e # _) = Inl e"
| "sequence_sum (Inr x # xs) = (case sequence_sum xs of Inl e \<Rightarrow> Inl e | Inr ys \<Rightarrow> Inr (x # ys))"


section \<open>Strings and files\<close>

text \<open>\<^verbatim>\<open>s.split(c)\<close> for a separator of one character: never empty.\<close>

fun split_on :: "char \<Rightarrow> string \<Rightarrow> string list" where
  "split_on c [] = [[]]"
| "split_on c (x # xs) =
     (if x = c then [] # split_on c xs
      else case split_on c xs of
             w # ws \<Rightarrow> (x # w) # ws
           | [] \<Rightarrow> [[x]])"

text \<open>\<^verbatim>\<open>sep.join(parts)\<close>.\<close>

fun join :: "string \<Rightarrow> string list \<Rightarrow> string" where
  "join sep [] = []"
| "join sep [p] = p"
| "join sep (p # ps) = p @ sep @ join sep ps"

text \<open>The decimal digits of a natural number, as \<^verbatim>\<open>'%s' % i\<close> prints it.\<close>

fun str_of_nat :: "nat \<Rightarrow> string" where
  "str_of_nat n =
     (if n < 10 then [''0123456789'' ! n]
      else str_of_nat (n div 10) @ [''0123456789'' ! (n mod 10)])"

text \<open>
  The part of the file system that \<^verbatim>\<open>multi_blast\<close> touches: the directories that
  exist and the contents of the files, by path.
\<close>

record filesystem =
  dirs :: "string set"
  files :: "string \<rightharpoonup> string"

definition isdir :: "filesystem \<Rightarrow> string \<Rightarrow> bool" where
  "isdir fs p = (p \<in> dirs fs)"

definition makedirs :: "filesystem \<Rightarrow> string \<Rightarrow> filesystem" where
  "makedirs fs p = fs\<lparr>dirs := insert p (dirs fs)\<rparr>"

text \<open>\<^verbatim>\<open>with open(p, 'w') as f: f.write(s)\<close>.\<close>

definition write_file :: "filesystem \<Rightarrow> string \<Rightarrow> string \<Rightarrow> filesystem" where
  "write_file fs p s = fs\<lparr>files := (files fs)(p \<mapsto> s)\<rparr>"

text \<open>\<^verbatim>\<open>with open(p, 'r') as f: f.read()\<close>: raises for a file that is not there.\<close>

definition read_file :: "filesystem \<Rightarrow> string \<Rightarrow> py_error + string" where
  "read_file fs p = (case files fs p of None \<Rightarrow> Inl (IOError p) | Some s \<Rightarrow> Inr s)"

text \<open>
  \<^verbatim>\<open>rmtree(d)\<close>: removes the directory, every directory and every file below it;
  raises when the directory does not exist.
\<close>

definition below :: "string \<Rightarrow> string \<Rightarrow> bool" where
  "below d p = (take (length d + 1) p = d @ ''/'')"

definition rmtree :: "filesystem \<Rightarrow> string \<Rightarrow> py_error + filesystem" where
  "rmtree fs d =
     (if d \<in> dirs fs
      then Inr \<lparr>dirs = {p \<in> dirs fs. p \<noteq> d \<and> \<not> below d p},
                files = (\<lambda>p. if below d p then None else files fs p)\<rparr>
      else Inl (OSError d))"

section \<open>tabulate_blast and multi_blast (workflow/workflow_helpers.py)\<close>

text \<open>
  A row of the table of \<^verbatim>\<open>tabulate_blast\<close>: the seven columns of a BLAST output
  line, as the strings read from the file (pandas fills a line that has fewer fields than
  the longest line with \<^verbatim>\<open>None\<close>), and the column \<^verbatim>\<open>e_score\<close> that
  \<^verbatim>\<open>multi_blast\<close> adds.
\<close>

record blast_hit =
  query_acc :: "string option"
  subject_acc :: "string option"
  query_coverage :: "string option"
  alignment_length :: "string option"
  positives :: "string option"
  evalue :: "string option"
  bit_score :: "string option"
  e_score :: npfloat

text \<open>
  \<^verbatim>\<open>tabulate_blast(results)\<close>: the lines but the last piece of the split, each split at
  the commas. \<^verbatim>\<open>pd.DataFrame(data, columns=cols)\<close> pads short lines with
  \<^verbatim>\<open>None\<close> and raises unless the longest line has as many fields as there are
  columns; no lines give the empty table. The result is the list of rows, each a list of
  seven cells.
\<close>

definition pad_cells :: "nat \<Rightarrow> string list \<Rightarrow> string option list" where
  "pad_cells n r = map Some r @ replicate (n - length r) None"

definition tabulate_blast :: "string \<Rightarrow> py_error + string option list list" where
  "tabulate_blast results =
     (let result_list = butlast (split_on CHR 0x0A results);
          data = map (split_on CHR '','') result_list;
          width = foldr max (map length data) 0
      in if data = [] then Inr []
         else if width \<noteq> 7 then Inl (AssertionError ''7 columns passed'')
         else Inr (map (pad_cells 7) data))"

text \<open>
  The conversion of one e-value to its score:
  \<^verbatim>\<open>
    results_table['e_score'] = results_table['evalue'].apply(float).apply(np.log10) * -1
    idx = results_table[results_table['e_score'] == np.inf].index
    results_table.loc[idx, 'e_score'] = 200.
  \<close>
  on the float that Python's \<^verbatim>\<open>float\<close> read from the cell.
\<close>

definition e_score_of_evalue :: "npfloat \<Rightarrow> npfloat" where
  "e_score_of_evalue e =
     (let s = np_mul (np_log10 e) (Fin (- 1))
      in if s = PInf then Fin 200 else s)"

text \<open>
  One row with its score. Python's \<^verbatim>\<open>float\<close> is a parameter (\<open>float_of_str\<close>,
  \<open>None\<close> for a string that it rejects with \<^verbatim>\<open>ValueError\<close>); it raises
  \<^verbatim>\<open>TypeError\<close> for a cell that is \<^verbatim>\<open>None\<close>.
\<close>

definition hit_of_cells ::
    "(string \<Rightarrow> npfloat option) \<Rightarrow> string option list \<Rightarrow> py_error + blast_hit" where
  "hit_of_cells float_of_str cells =
     (case cells ! 5 of
        None \<Rightarrow> Inl (TypeError ''float() argument must be a string or a number'')
      | Some s \<Rightarrow>
          (case float_of_str s of
             None \<Rightarrow> Inl (ValueError s)
           | Some e \<Rightarrow>
               Inr \<lparr>query_acc = cells ! 0, subject_acc = cells ! 1, query_coverage = cells ! 2,
                    alignment_length = cells ! 3, positives = cells ! 4, evalue = cells ! 5,
                    bit_score = cells ! 6, e_score = e_score_of_evalue e\<rparr>))"

text \<open>
  The FASTA text of one chunk of the query list: an identifier that is not in the index
  of the sequence table is skipped (with a printed warning).
\<close>

fun chunk_fasta :: "(string \<rightharpoonup> string) \<Rightarrow> string list \<Rightarrow> string" where
  "chunk_fasta query_full_table [] = []"
| "chunk_fasta query_full_table (gid # gids) =
     (case query_full_table gid of
        Some sequence \<Rightarrow> ''>'' @ gid @ [CHR 0x0A] @ sequence @ [CHR 0x0A]
      | None \<Rightarrow> []) @ chunk_fasta query_full_table gids"

text \<open>
  \<^verbatim>\<open>query_list[i:j]\<close> for the index pairs of \<^verbatim>\<open>partition_indexes\<close>, which are
  never negative for a list length and a positive worker count.
\<close>

definition py_slice :: "'a list \<Rightarrow> int \<Rightarrow> int \<Rightarrow> 'a list" where
  "py_slice xs i j = take (nat j - nat i) (drop (nat i) xs)"

text \<open>The loop that reads the output of every chunk and appends it to \<^verbatim>\<open>results\<close>.\<close>

fun collect_results :: "filesystem \<Rightarrow> string \<Rightarrow> nat list \<Rightarrow> py_error + string" where
  "collect_results fs cwd [] = Inr []"
| "collect_results fs cwd (i # is) =
     (case read_file fs (cwd @ ''/tmp_out_blasted_'' @ str_of_nat i @ ''.txt'') of
        Inl e \<Rightarrow> Inl e
      | Inr out \<Rightarrow>
          (case collect_results fs cwd is of Inl e \<Rightarrow> Inl e | Inr rest \<Rightarrow> Inr (out @ rest)))"

text \<open>
  \<^verbatim>\<open>multi_blast(query_list, query_full_table, database_path, result_path, cpu,
  raise_blast_error)\<close> as a function of the file system: it returns the file system it
  leaves behind together with the table or the exception. The shell script
  \<^verbatim>\<open>recip_blaster.sh\<close> is a parameter (\<open>blaster\<close>): given the worker count, the
  database path, the working directory and the file system, it gives the file system
  after the run and the text it wrote to its standard error, which the shell redirects
  into the error log. The statements after a \<^verbatim>\<open>raise\<close> are not run, so every error
  branch returns the file system as it is at that point.
\<close>

definition multi_blast ::
    "(string \<Rightarrow> npfloat option) \<Rightarrow> (int \<Rightarrow> string \<Rightarrow> string \<Rightarrow> filesystem \<Rightarrow> filesystem \<times> string) \<Rightarrow>
     filesystem \<Rightarrow> string list \<Rightarrow> (string \<rightharpoonup> string) \<Rightarrow> string \<Rightarrow> string \<Rightarrow> int \<Rightarrow> bool \<Rightarrow>
     filesystem \<times> (py_error + blast_hit list)" where
  "multi_blast float_of_str blaster fs0 query_list query_full_table database_path result_path
      cpu raise_blast_error =
     (let db_name = last (split_on CHR ''/'' database_path)
      in case partition_indexes (int (length query_list)) cpu 0 of
           Inl e \<Rightarrow> (fs0, Inl e)
         | Inr idxes \<Rightarrow>
             (let mplist = map (\<lambda>(i, j). chunk_fasta query_full_table (py_slice query_list i j)) idxes;
                  cwd = result_path @ ''/'' @ ''multi_blast_files'';
                  fs1 = (if \<not> isdir fs0 cwd then makedirs fs0 cwd else fs0);
                  fs2 = foldl (\<lambda>fs (i, seq). write_file fs (cwd @ ''/tmp_seq_'' @ str_of_nat i @ ''.faa'') seq)
                          fs1 (enumerate 0 mplist);
                  errlog = result_path @ ''/blasterr__'' @ db_name @ ''.txt'';
                  (fs3, stderr) = blaster cpu database_path cwd fs2;
                  fs4 = write_file fs3 errlog stderr
              in case read_file fs4 errlog of
                   Inl e \<Rightarrow> (fs4, Inl e)
                 | Inr msg \<Rightarrow>
                     if msg \<noteq> [] \<and> raise_blast_error
                     then (fs4, Inl (RuntimeError ''blast had an error message''))
                     else
                       (case collect_results fs4 cwd (map fst (enumerate 0 mplist)) of
                          Inl e \<Rightarrow> (fs4, Inl e)
                        | Inr results \<Rightarrow>
                            (case tabulate_blast results of
                               Inl e \<Rightarrow> (fs4, Inl e)
                             | Inr cells \<Rightarrow>
                                 (case sequence_sum (map (hit_of_cells float_of_str) cells) of
                                    Inl e \<Rightarrow> (fs4, Inl e)
                                  | Inr results_table \<Rightarrow>
                                      (case rmtree fs4 cwd of
                                         Inl e \<Rightarrow> (fs4, Inl e)
                                       | Inr fs5 \<Rightarrow> (fs5, Inr results_table)))))))"

section \<open>refseq_to_reactions (workflow/workflow_helpers.py)\<close>

text \<open>The columns of the table that \<^verbatim>\<open>multi_blast\<close> returns.\<close>

definition blast_columns :: "string list" where
  "blast_columns = [''query acc.'', ''subject acc.'', ''% query coverage per subject'',
     ''alignment length'', ''% positives'', ''evalue'', ''bit score'', ''e_score'']"

text \<open>
  The merge key of a row for a column name. The reference-sequence ids of the join table
  are non-empty strings, so a cell that is \<^verbatim>\<open>None\<close>, or the float of the column
  \<^verbatim>\<open>e_score\<close>, matches none of them: both are \<open>None\<close> here.
\<close>

definition merge_key :: "string \<Rightarrow> blast_hit \<Rightarrow> string option" where
  "merge_key col h =
     (if col = ''query acc.'' then query_acc h
      else if col = ''subject acc.'' then subject_acc h
      else if col = ''% query coverage per subject'' then query_coverage h
      else if col = ''alignment length'' then alignment_length h
      else if col = ''% positives'' then positives h
      else if col = ''evalue'' then evalue h
      else if col = ''bit score'' then bit_score h
      else None)"

text \<open>A row of the merged table: the hit and the reaction id, null without a partner.\<close>

record linked_hit = blast_hit +
  reaction_id :: "int option"

text \<open>
  \<^verbatim>\<open>pd.merge(blast_results, rxn_refseq_join, left_on=refseq_col, right_on='refseq_id',
  how='left')\<close> followed by the drop of the column \<^verbatim>\<open>refseq_id\<close>: the rows of the left
  table in their order, each once for every row of the join table with its key (in the
  order of the join table), or once with a null reaction id when there is none. The join
  table \<^verbatim>\<open>rxn_refseq_join\<close> is a list of pairs (reaction id, reference-sequence id).
\<close>

definition merge_left :: "string \<Rightarrow> (int \<times> string) list \<Rightarrow> blast_hit list \<Rightarrow> linked_hit list" where
  "merge_left refseq_col rxn_refseq_join blast_results =
     concat (map (\<lambda>h.
        let matches = filter (\<lambda>(rxn, refseq). merge_key refseq_col h = Some refseq) rxn_refseq_join
        in if matches = [] then [blast_hit.extend h \<lparr>reaction_id = None\<rparr>]
           else map (\<lambda>(rxn, refseq). blast_hit.extend h \<lparr>reaction_id = Some rxn\<rparr>) matches)
       blast_results)"

text \<open>
  \<^verbatim>\<open>refseq_to_reactions(blast_results, refseq_col)\<close>. After the merge the source
  evaluates
  \<^verbatim>\<open>
    result_table.sort_values(['query acc.', 'e_score'],
        ascending=[True, False]).drop_duplicates(['query acc.', 'reaction_id'])
  \<close>
  without \<^verbatim>\<open>inplace=True\<close> and without assigning the result: both methods return a
  new table and leave \<^verbatim>\<open>result_table\<close> as it is, so the value of the expression is
  lost and the function returns the merged table.
\<close>

definition refseq_to_reactions ::
    "(int \<times> string) list \<Rightarrow> blast_hit list \<Rightarrow> string \<Rightarrow> py_error + linked_hit list" where
  "refseq_to_reactions rxn_refseq_join blast_results refseq_col =
     (if refseq_col \<notin> set blast_columns
      then Inl (RuntimeError (refseq_col @ '' is not a column in the dataframe!''))
      else let result_table = merge_left refseq_col rxn_refseq_join blast_results
           in Inr result_table)"

section \<open>connect_compound_to_reaction (workflow/workflow_helpers.py)\<close>

text \<open>
  A row of the result table. The reaction id is an index of the reaction table, or the
  empty string of a search that found nothing (\<open>None\<close>).
\<close>

record compound_result =
  cr_original_compound :: string
  cr_level :: nat
  cr_neighbor :: string
  cr_reaction_id :: "int option"
  cr_note :: string

text \<open>
  What the function reads from outside: the reaction table as pairs of index and compound
  string; the regular-expression search of \<^verbatim>\<open>str.contains\<close> (pattern, text);
  \<^verbatim>\<open>mol_from_inchikey\<close> and \<^verbatim>\<open>tautomer_finder\<close> (RDKit and MolVS);
  \<^verbatim>\<open>neighbor_finder\<close> (the chemical network), which returns pairs of a level and the
  identifiers at that level.
\<close>

record 'mol collaborators =
  rxn_db :: "(int \<times> string) list"
  str_contains :: "string \<Rightarrow> string \<Rightarrow> bool"
  mol_from_inchikey :: "string \<Rightarrow> 'mol option"
  tautomer_finder :: "'mol \<Rightarrow> string list"
  neighbor_finder :: "string \<Rightarrow> nat \<Rightarrow> (nat \<times> string list) list"

text \<open>
  \<^verbatim>\<open>re.match('[A-Z]{14}-[A-Z]{8}SA-[A-Z]{1}', inchikey)\<close>: the pattern must match at
  the start of the string.
\<close>

definition is_upper :: "char \<Rightarrow> bool" where
  "is_upper c = (65 \<le> (of_char c :: nat) \<and> (of_char c :: nat) \<le> 90)"

definition inchikey_test :: "string \<Rightarrow> bool" where
  "inchikey_test s =
     (27 \<le> length s
      \<and> list_all is_upper (take 14 s)
      \<and> s ! 14 = CHR ''-''
      \<and> list_all is_upper (take 8 (drop 15 s))
      \<and> s ! 23 = CHR ''S'' \<and> s ! 24 = CHR ''A''
      \<and> s ! 25 = CHR ''-''
      \<and> is_upper (s ! 26))"

text \<open>
  \<^verbatim>\<open>find_reactions_of_compound(inchikey)\<close>: the indices of the reactions whose
  compound string contains the pattern, or \<^verbatim>\<open>None\<close> when there is none.
\<close>

definition find_reactions_of_compound :: "'mol collaborators \<Rightarrow> string \<Rightarrow> int list option" where
  "find_reactions_of_compound env inchikey =
     (let reactions = filter (\<lambda>(idx, cpds). str_contains env inchikey cpds) (rxn_db env)
      in if reactions \<noteq> [] then Some (map fst reactions) else None)"

text \<open>
  \<^verbatim>\<open>enumerate_compound_results\<close>: one row per reaction appended to the results, or
  one row with the empty reaction id.
\<close>

definition enumerate_compound_results ::
    "string \<Rightarrow> compound_result list \<Rightarrow> int list option \<Rightarrow> nat \<Rightarrow> string \<Rightarrow> string \<Rightarrow>
     compound_result list" where
  "enumerate_compound_results compound0 compound_results reaction_idx_list lv nb nt =
     (case reaction_idx_list of
        Some idxs \<Rightarrow>
          compound_results @
            map (\<lambda>rxn_idx. \<lparr>cr_original_compound = compound0, cr_level = lv,
                   cr_neighbor = nb, cr_reaction_id = Some rxn_idx, cr_note = nt\<rparr>) idxs
      | None \<Rightarrow>
          compound_results @
            [\<lparr>cr_original_compound = compound0, cr_level = lv,
              cr_neighbor = nb, cr_reaction_id = None, cr_note = nt\<rparr>])"

text \<open>The body of the loop over the neighbours of one level.\<close>

definition neighbor_step ::
    "'mol collaborators \<Rightarrow> string \<Rightarrow> bool \<Rightarrow> nat \<Rightarrow> compound_result list \<Rightarrow> string \<Rightarrow>
     compound_result list" where
  "neighbor_step env inchikey tautomer lv compound_results neighbor_inchikey =
     (let reaction_idx_list = find_reactions_of_compound env neighbor_inchikey;
          compound_results1 = enumerate_compound_results inchikey compound_results
             reaction_idx_list lv neighbor_inchikey ''direct''
      in if tautomer
         then (case mol_from_inchikey env neighbor_inchikey of
                 Some neighbor_mol \<Rightarrow>
                   (let tautomer_list = tautomer_finder env neighbor_mol;
                        tautomer_search_pattern = join ''|'' tautomer_list;
                        tautomer_reaction_idx_list =
                          find_reactions_of_compound env tautomer_search_pattern
                    in enumerate_compound_results inchikey compound_results1
                         tautomer_reaction_idx_list lv neighbor_inchikey ''flat tautomer'')
               | None \<Rightarrow> compound_results1)
         else compound_results1)"

text \<open>
  \<^verbatim>\<open>sort_values(['note', 'level'], ascending=[True, True])\<close>: a stable sort by the
  pair of the two columns, strings in the order of their characters' codes.
  \<^verbatim>\<open>drop_duplicates(['original_compound', 'reaction_id'])\<close>: a row is dropped when an
  earlier row has the same pair; \<open>seen\<close> holds the pairs met so far.
\<close>

definition sort_columns :: "compound_result \<Rightarrow> string \<times> nat" where
  "sort_columns r = (cr_note r, cr_level r)"

definition duplicate_columns :: "compound_result \<Rightarrow> string \<times> int option" where
  "duplicate_columns r = (cr_original_compound r, cr_reaction_id r)"

definition sort_values :: "compound_result list \<Rightarrow> compound_result list" where
  "sort_values rows = sort_key sort_columns rows"

fun drop_duplicates_from ::
    "(string \<times> int option) list \<Rightarrow> compound_result list \<Rightarrow> compound_result list" where
  "drop_duplicates_from seen [] = []"
| "drop_duplicates_from seen (r # rs) =
     (if duplicate_columns r \<in> set seen
      then drop_duplicates_from seen rs
      else r # drop_duplicates_from (duplicate_columns r # seen) rs)"

definition drop_duplicates :: "compound_result list \<Rightarrow> compound_result list" where
  "drop_duplicates rows = drop_duplicates_from [] rows"

text \<open>
  \<^verbatim>\<open>connect_compound_to_reaction(inchikey, tautomer, neighbor_level)\<close>. A compound
  that is not in the compound table ends the function early, with the direct rows only
  and without the sort and the drop of duplicates.
\<close>

definition connect_compound_to_reaction ::
    "'mol collaborators \<Rightarrow> string \<Rightarrow> bool \<Rightarrow> nat \<Rightarrow> py_error + compound_result list" where
  "connect_compound_to_reaction env inchikey tautomer neighbor_level =
     (if \<not> inchikey_test inchikey
      then Inl (RuntimeError (inchikey @ '' is not a valid inchikey''))
      else
        let search_inchikey = join ''-'' (take 2 (split_on CHR ''-'' inchikey));
            direct_reaction_idx_list = find_reactions_of_compound env search_inchikey;
            compound_results0 = enumerate_compound_results inchikey []
               direct_reaction_idx_list 0 [] ''direct''
        in if tautomer \<and> mol_from_inchikey env inchikey = None
           then Inr compound_results0
           else
             let compound_results1 =
                   (if tautomer
                    then (let tautomer_list = tautomer_finder env (the (mol_from_inchikey env inchikey));
                              tautomer_search_pattern = join ''|'' tautomer_list;
                              tautomer_reaction_idx_list =
                                find_reactions_of_compound env tautomer_search_pattern
                          in enumerate_compound_results inchikey compound_results0
                               tautomer_reaction_idx_list 0 [] ''flat tautomer'')
                    else compound_results0);
                 compound_results2 =
                   (if neighbor_level \<noteq> 0
                    then foldl (\<lambda>results (lv, neighbor_compound_list).
                                  foldl (neighbor_step env inchikey tautomer lv) results
                                        neighbor_compound_list)
                           compound_results1 (neighbor_finder env inchikey neighbor_level)
                    else compound_results1)
             in Inr (drop_duplicates (sort_values compound_results2)))"

section \<open>accurate_mass_search (workflow/workflow_helpers.py)\<close>








section \<open>The rules of the specification, for comparison\<close>

text \<open>
  The reciprocal score as the specification words it, one rule after the other: a missing
  e-score in either direction gives 0.1 whatever else holds; otherwise equal reaction ids
  give 2; otherwise a smaller e-score of at least the threshold times the larger gives 1;
  otherwise 0.01.
\<close>

definition spec_reciprocal_score :: "real \<Rightarrow> merged_row \<Rightarrow> npfloat" where
  "spec_reciprocal_score closeness_threshold r =
     (if np_isnan (e_score_r2g r) \<or> np_isnan (e_score_g2r r) then Fin (1 / 10)
      else if ids_eq (reaction_id_r2g r) (reaction_id_g2r r) then Fin 2
      else if np_ge (row_min (e_score_r2g r) (e_score_g2r r))
                    (np_mul (row_max (e_score_r2g r) (e_score_g2r r)) (Fin closeness_threshold))
           then Fin 1
      else Fin (1 / 100))"








section \<open>Sample runs\<close>

text \<open>
  Concrete collaborators for the runs that the theorems below evaluate: a file system with
  nothing in it; a reading of the three e-value strings that occur; a BLAST script that
  writes an error message and no output; and one that writes two hits for one chunk, the
  first with e-value 0, the second with e-value 10, and no error message.
\<close>

definition empty_fs :: filesystem where
  "empty_fs = \<lparr>dirs = {}, files = Map.empty\<rparr>"

definition float_of_sample :: "string \<Rightarrow> npfloat option" where
  "float_of_sample s =
     (if s = ''0.0'' then Some (Fin 0)
      else if s = ''10'' then Some (Fin 10)
      else if s = ''1e-50'' then Some (Fin (1 / 10 ^ 50))
      else None)"

definition failing_blaster :: "int \<Rightarrow> string \<Rightarrow> string \<Rightarrow> filesystem \<Rightarrow> filesystem \<times> string" where
  "failing_blaster cpu database_path cwd fs = (fs, ''BLAST Database error'')"

definition two_hit_output :: string where
  "two_hit_output = ''g1,r1,100,30,99.0,0.0,250'' @ [CHR 0x0A]
                  @ ''g1,r2,40,12,55.0,10,12.5'' @ [CHR 0x0A]"

definition two_hit_blaster :: "int \<Rightarrow> string \<Rightarrow> string \<Rightarrow> filesystem \<Rightarrow> filesystem \<times> string" where
  "two_hit_blaster cpu database_path cwd fs =
     (write_file fs (cwd @ ''/tmp_out_blasted_0.txt'') two_hit_output, [])"

definition hit_zero :: blast_hit where
  "hit_zero = \<lparr>query_acc = Some ''g1'', subject_acc = Some ''r1'', query_coverage = Some ''100'',
     alignment_length = Some ''30'', positives = Some ''99.0'', evalue = Some ''0.0'',
     bit_score = Some ''250'', e_score = Fin 200\<rparr>"

definition hit_ten :: blast_hit where
  "hit_ten = \<lparr>query_acc = Some ''g1'', subject_acc = Some ''r2'', query_coverage = Some ''40'',
     alignment_length = Some ''12'', positives = Some ''55.0'', evalue = Some ''10'',
     bit_score = Some ''12.5'', e_score = Fin (- 1)\<rparr>"

text \<open>
  Two hits of the gene \<^verbatim>\<open>g1\<close> against the reference sequences \<^verbatim>\<open>r1\<close> (score 50)
  and \<^verbatim>\<open>r2\<close> (score 90), and a join table in which both reference sequences belong
  to reaction 7.
\<close>

definition hit_r1 :: blast_hit where
  "hit_r1 = \<lparr>query_acc = Some ''g1'', subject_acc = Some ''r1'', query_coverage = Some ''80'',
     alignment_length = Some ''120'', positives = Some ''60.0'', evalue = Some ''1e-50'',
     bit_score = Some ''180'', e_score = Fin 50\<rparr>"

definition hit_r2 :: blast_hit where
  "hit_r2 = \<lparr>query_acc = Some ''g1'', subject_acc = Some ''r2'', query_coverage = Some ''95'',
     alignment_length = Some ''200'', positives = Some ''85.0'', evalue = Some ''1e-90'',
     bit_score = Some ''320'', e_score = Fin 90\<rparr>"

definition sample_join :: "(int \<times> string) list" where
  "sample_join = [(7, ''r1''), (7, ''r2'')]"


text \<open>
  A run of \<^verbatim>\<open>connect_compound_to_reaction\<close> without tautomers: glucose is a compound
  of reaction 7 and of reaction 9; the network puts one neighbour at level 1 and one at
  level 2, and the neighbour at level 2 is a compound of reaction 7 too.
\<close>

definition glucose :: string where
  "glucose = ''WQZGKKKJIJFFOK-GASJEMHNSA-N''"

definition sample_env :: "unit collaborators" where
  "sample_env = \<lparr>
     rxn_db = [(7, ''WQZGKKKJIJFFOK-GASJEMHNSA-N///BBBBBBBBBBBBBB-GASJEMHNSA-N''),
               (9, ''WQZGKKKJIJFFOK-GASJEMHNSA-N'')],
     str_contains = (\<lambda>pat txt. \<exists>i \<in> set [0..<Suc (length txt)]. take (length pat) (drop i txt) = pat),
     mol_from_inchikey = (\<lambda>k. None),
     tautomer_finder = (\<lambda>m. []),
     neighbor_finder = (\<lambda>k lv. [(0, []), (1, [''AAAAAAAAAAAAAA'']), (2, [''BBBBBBBBBBBBBB''])])\<rparr>"

definition result_row :: "nat \<Rightarrow> string \<Rightarrow> int option \<Rightarrow> string \<Rightarrow> compound_result" where
  "result_row lv nb rxn nt =
     \<lparr>cr_original_compound = glucose, cr_level = lv, cr_neighbor = nb,
      cr_reaction_id = rxn, cr_note = nt\<rparr>"

section \<open>Properties of partition_indexes\<close>

lemma chunk_loop_length: "length (chunk_loop q r a is) = length is"
  by (induction "is" arbitrary: a) (simp_all add: Let_def)

lemma chunk_loop_sizes:
  "chunk_sizes (chunk_loop q r a is) = map (\<lambda>i. q + (if i < r then 1 else 0)) is"
  by (induction "is" arbitrary: a) (simp_all add: Let_def chunk_sizes_def)

lemma chunk_loop_contiguous:
  "contiguous a (chunk_loop q r a is) (a + sum_list (chunk_sizes (chunk_loop q r a is)))"
  by (induction "is" arbitrary: a) (simp_all add: Let_def chunk_sizes_def add.assoc [symmetric])

lemma chunk_sizes_offset:
  "chunk_sizes (map (\<lambda>(a, b). (a + off, b + off)) ps) = chunk_sizes ps"
  by (induction ps) (auto simp: chunk_sizes_def)

lemma contiguous_offset:
  "contiguous a ps b \<Longrightarrow> contiguous (a + off) (map (\<lambda>(a, b). (a + off, b + off)) ps) (b + off)"
  by (induction a ps b rule: contiguous.induct) auto

lemma sum_extra_upt:
  "0 \<le> r \<Longrightarrow> r \<le> int n \<Longrightarrow>
   sum_list (map (\<lambda>i. q + (if i < r then 1 else (0::int))) (map int [0..<n])) = int n * q + r"
proof (induction n arbitrary: r)
  case 0
  then show ?case by simp
next
  case (Suc n)
  show ?case
  proof (cases "r \<le> int n")
    case True
    with Suc.IH [of r] Suc.prems show ?thesis
      by (simp add: algebra_simps)
  next
    case False
    with Suc.prems have r: "r = int n + 1" by simp
    have "sum_list (map (\<lambda>i. q + (if i < r then 1 else (0::int))) (map int [0..<n]))
          = sum_list (map (\<lambda>i. q + (if i < int n then 1 else (0::int))) (map int [0..<n]))"
      by (rule arg_cong [where f = sum_list]) (simp add: r)
    also have "\<dots> = int n * q + int n"
      using Suc.IH [of "int n"] by simp
    finally show ?thesis
      by (simp add: r algebra_simps)
  qed
qed

lemma sizes_positive_pairs:
  "\<forall>s \<in> set (chunk_sizes ps). 0 < s \<Longrightarrow> \<forall>(a, b) \<in> set ps. a < b"
  by (auto simp: chunk_sizes_def)

text \<open>
  Claim C5. For every list length \<open>N \<ge> 1\<close> and worker count \<open>C\<close> with
  \<open>1 \<le> C \<le> N\<close>, \<^verbatim>\<open>partition_indexes\<close> returns without raising, and returns exactly
  \<open>C\<close> index pairs; the pairs are contiguous (the first starts at the offset, each starts
  where the previous one ended, the last ends at offset + \<open>N\<close>) and every pair is a
  non-empty increasing range, so the chunks do not overlap and keep the input order; the
  sizes sum to \<open>N\<close>; every size is \<open>N div C\<close> or \<open>N div C + 1\<close>; the chunk at position
  \<open>i\<close> has the extra element exactly when \<open>i < N mod C\<close>. For \<open>N = 7\<close>, \<open>C = 3\<close> the sizes
  are \<open>[3, 2, 2]\<close>.
\<close>

theorem partition_indexes_chunks:
  assumes "1 \<le> C" and "C \<le> N"
  shows "(\<exists>ps. partition_indexes N C off = Inr ps
           \<and> length ps = nat C
           \<and> contiguous off ps (off + N)
           \<and> (\<forall>(a, b) \<in> set ps. a < b)
           \<and> sum_list (chunk_sizes ps) = N
           \<and> (\<forall>s \<in> set (chunk_sizes ps). s = N div C \<or> s = N div C + 1)
           \<and> chunk_sizes ps = map (\<lambda>i. N div C + (if i < N mod C then 1 else 0)) (xrange C))
         \<and> map_sum id chunk_sizes (partition_indexes 7 3 0) = Inr [3, 2, 2]"
proof (rule conjI)
  define q where "q = N div C"
  define r where "r = N mod C"
  define loop where "loop = chunk_loop q r 0 (xrange C)"
  define ps where "ps = map (\<lambda>(a, b). (a + off, b + off)) loop"
  have rem: "N - q * C = r"
    by (simp add: q_def r_def minus_div_mult_eq_mod)
  have r_bounds: "0 \<le> r" "r \<le> int (nat C)"
    using assms by (simp_all add: r_def less_imp_le)
  have q_pos: "1 \<le> q"
    using assms pos_imp_zdiv_pos_iff [of C N] by (simp add: q_def)
  have res: "partition_indexes N C off = Inr ps"
    using assms by (simp add: partition_indexes_def Let_def rem ps_def loop_def q_def [symmetric])
  have len: "length ps = nat C"
    by (simp add: ps_def loop_def chunk_loop_length xrange_def)
  have sizes: "chunk_sizes ps = map (\<lambda>i. q + (if i < r then 1 else 0)) (xrange C)"
    by (simp add: ps_def loop_def chunk_sizes_offset chunk_loop_sizes)
  have total: "sum_list (chunk_sizes ps) = N"
  proof -
    have "sum_list (chunk_sizes ps) = int (nat C) * q + r"
      unfolding sizes xrange_def by (rule sum_extra_upt [OF r_bounds])
    also have "\<dots> = N"
      using assms by (simp add: q_def r_def)
    finally show ?thesis .
  qed
  have "contiguous 0 loop (0 + sum_list (chunk_sizes loop))"
    unfolding loop_def by (rule chunk_loop_contiguous)
  then have "contiguous (0 + off) ps (0 + sum_list (chunk_sizes loop) + off)"
    unfolding ps_def by (rule contiguous_offset)
  moreover have "sum_list (chunk_sizes loop) = N"
    using total by (simp add: ps_def chunk_sizes_offset)
  ultimately have contig: "contiguous off ps (off + N)"
    by (simp add: add.commute)
  have two: "\<forall>s \<in> set (chunk_sizes ps). s = q \<or> s = q + 1"
    by (auto simp: sizes)
  then have "\<forall>s \<in> set (chunk_sizes ps). 0 < s"
    using q_pos by auto
  then have ordered: "\<forall>(a, b) \<in> set ps. a < b"
    by (rule sizes_positive_pairs)
  show "\<exists>ps. partition_indexes N C off = Inr ps
           \<and> length ps = nat C
           \<and> contiguous off ps (off + N)
           \<and> (\<forall>(a, b) \<in> set ps. a < b)
           \<and> sum_list (chunk_sizes ps) = N
           \<and> (\<forall>s \<in> set (chunk_sizes ps). s = N div C \<or> s = N div C + 1)
           \<and> chunk_sizes ps = map (\<lambda>i. N div C + (if i < N mod C then 1 else 0)) (xrange C)"
    using res len contig ordered total two sizes
    unfolding q_def r_def by blast
next
  show "map_sum id chunk_sizes (partition_indexes 7 3 0) = Inr [3, 2, 2]"
    by (simp add: partition_indexes_def xrange_def chunk_sizes_def Let_def upt_rec numeral_eq_Suc)
qed

theorem partition_indexes_chunks_witness:
  "(1::int) \<le> 3 \<and> (3::int) \<le> 7 \<and> partition_indexes 7 3 0 = Inr [(0, 3), (3, 5), (5, 7)]
     \<and> contiguous 0 [(0, 3), (3, 5), (5, 7)] (0 + 7)"
proof -
  have h1: "(1::int) \<le> 3" and h2: "(3::int) \<le> 7" by simp_all
  from partition_indexes_chunks [OF h1 h2, of 0]
  obtain ps where ps: "partition_indexes 7 3 0 = Inr ps" and c: "contiguous 0 ps (0 + 7)"
    by blast
  have "partition_indexes 7 3 0 = Inr [(0, 3), (3, 5), (5, 7)]"
    by (simp add: partition_indexes_def xrange_def Let_def upt_rec numeral_eq_Suc)
  with ps c h1 h2 show ?thesis by simp
qed

section \<open>Properties of reciprocal_agreement\<close>

lemma reciprocal_agreement_rows:
  "reciprocal_agreement df t = map (\<lambda>r. (r, spec_reciprocal_score t r)) df"
  unfolding reciprocal_agreement_def Let_def
  by (induction df) (simp_all add: spec_reciprocal_score_def ids_ne_def)





text \<open>
  Claim C10. A row whose forward and reverse e-scores are both missing receives 0.1. Two
  missing reaction ids do not compare equal: the comparison \<^verbatim>\<open>==\<close> is false and
  \<^verbatim>\<open>!=\<close> is true for them, so a row without a hit in either direction is in the
  disagreement branch and never receives the agreement score 2.
\<close>

theorem reciprocal_agreement_null_rows:
  "map snd (reciprocal_agreement [r\<lparr>e_score_r2g := NaN, e_score_g2r := NaN\<rparr>] t) = [Fin (1 / 10)]
   \<and> \<not> ids_eq None None \<and> ids_ne None None
   \<and> map snd (reciprocal_agreement [r\<lparr>reaction_id_r2g := None, reaction_id_g2r := None\<rparr>] t)
       \<noteq> [Fin 2]
   \<and> map snd (reciprocal_agreement
        [r\<lparr>reaction_id_r2g := None, reaction_id_g2r := None, e_score_r2g := NaN, e_score_g2r := NaN\<rparr>] t)
       = [Fin (1 / 10)]"
  by (simp add: reciprocal_agreement_rows spec_reciprocal_score_def ids_ne_def)

section \<open>Properties of homology_score and calculate_scores\<close>

lemma homology_score_finite:
  "np_sub (np_add (Fin f) (Fin g)) (np_abs (np_sub (Fin f) (Fin g))) = Fin (2 * min f g)"
  by (simp add: np_sub_def min_def)







section \<open>Properties of magi_score\<close>




section \<open>Properties of multi_blast\<close>

lemma partition_one: "partition_indexes 1 1 0 = Inr [(0, 1)]"
  by (simp add: partition_indexes_def xrange_def Let_def)

lemma str_of_nat_0: "str_of_nat 0 = ''0''"
  by (simp add: str_of_nat.simps)

lemma tabulate_two_hits:
  "tabulate_blast two_hit_output =
     Inr [[Some ''g1'', Some ''r1'', Some ''100'', Some ''30'', Some ''99.0'', Some ''0.0'', Some ''250''],
          [Some ''g1'', Some ''r2'', Some ''40'', Some ''12'', Some ''55.0'', Some ''10'', Some ''12.5'']]"
  by (simp add: tabulate_blast_def two_hit_output_def Let_def pad_cells_def)

lemma two_hit_run:
  "snd (multi_blast float_of_sample two_hit_blaster empty_fs [''g1''] [''g1'' \<mapsto> ''MKV'']
          ''db/refseq'' ''out'' 1 True) = Inr [hit_zero, hit_ten]"
  using tabulate_two_hits
  by (simp add: multi_blast_def partition_one Let_def two_hit_blaster_def empty_fs_def isdir_def
      makedirs_def write_file_def read_file_def enumerate_eq_zip py_slice_def str_of_nat_0
      hit_of_cells_def float_of_sample_def e_score_of_evalue_def rmtree_def inf_signed_def
      hit_zero_def hit_ten_def)

lemma sequence_sum_map_set:
  "sequence_sum (map g xs) = Inr ys \<Longrightarrow> y \<in> set ys \<Longrightarrow> \<exists>x \<in> set xs. g x = Inr y"
proof (induction xs arbitrary: ys)
  case Nil
  then show ?case by simp
next
  case (Cons x xs)
  show ?case
  proof (cases "g x")
    case (Inl e)
    with Cons.prems show ?thesis by simp
  next
    case (Inr v)
    with Cons.prems obtain zs where zs: "sequence_sum (map g xs) = Inr zs" and ys: "ys = v # zs"
      by (auto split: sum.splits)
    show ?thesis
    proof (cases "y = v")
      case True
      with Inr show ?thesis by auto
    next
      case False
      with ys Cons.prems have "y \<in> set zs" by simp
      from Cons.IH [OF zs this] show ?thesis by auto
    qed
  qed
qed

lemma hit_of_cells_score:
  "hit_of_cells f cells = Inr h \<Longrightarrow>
   \<exists>s e. evalue h = Some s \<and> f s = Some e \<and> e_score h = e_score_of_evalue e"
  by (auto simp: hit_of_cells_def split: option.splits)

lemma multi_blast_table:
  assumes "multi_blast f blaster fs ql qt db rp cpu rbe = (fs', Inr t)"
  shows "\<exists>cells. sequence_sum (map (hit_of_cells f) cells) = Inr t"
  using assms unfolding multi_blast_def Let_def
  by (auto split: sum.splits prod.splits if_splits)

lemma multi_blast_rows:
  assumes "multi_blast f blaster fs ql qt db rp cpu rbe = (fs', Inr t)" and "h \<in> set t"
  shows "\<exists>s e. evalue h = Some s \<and> f s = Some e \<and> e_score h = e_score_of_evalue e"
proof -
  from multi_blast_table [OF assms(1)] obtain cells
    where "sequence_sum (map (hit_of_cells f) cells) = Inr t" ..
  from sequence_sum_map_set [OF this assms(2)] obtain c where "hit_of_cells f c = Inr h"
    by blast
  then show ?thesis by (rule hit_of_cells_score)
qed

lemma e_score_of_evalue_nonneg:
  assumes "0 \<le> e"
  shows "e_score_of_evalue (Fin e) = Fin (if e = 0 then 200 else - log 10 e)"
  using assms by (simp add: e_score_of_evalue_def inf_signed_def)

lemma rmtree_removes: "rmtree fs d = Inr fs' \<Longrightarrow> \<not> isdir fs' d"
  by (auto simp: rmtree_def isdir_def split: if_splits)

text \<open>
  On every path on which \<^verbatim>\<open>multi_blast\<close> returns a table, the working directory is
  gone from the file system it leaves behind.
\<close>

lemma multi_blast_success_removes_directory:
  assumes "multi_blast f blaster fs ql qt db rp cpu rbe = (fs', Inr t)"
  shows "\<not> isdir fs' (rp @ ''/'' @ ''multi_blast_files'')"
  using assms unfolding multi_blast_def Let_def
  by (auto split: sum.splits prod.splits if_splits dest: rmtree_removes)

text \<open>
  Claim C2, as stated, fails: the run of \<^verbatim>\<open>multi_blast\<close> whose BLAST output holds a
  hit with e-value 10 returns that hit with the score \<open>-1\<close>, which is below 0.
\<close>

theorem multi_blast_negative_score:
  "snd (multi_blast float_of_sample two_hit_blaster empty_fs [''g1''] [''g1'' \<mapsto> ''MKV'']
          ''db/refseq'' ''out'' 1 True) = Inr [hit_zero, hit_ten]
   \<and> evalue hit_ten = Some ''10'' \<and> float_of_sample ''10'' = Some (Fin 10)
   \<and> e_score hit_ten = Fin (- 1)
   \<and> \<not> np_le (Fin 0) (e_score hit_ten)"
  using two_hit_run by (simp add: hit_ten_def float_of_sample_def)

text \<open>
  Claim C2, amended. In every table that \<^verbatim>\<open>multi_blast\<close> returns, a row whose
  e-value reads as a finite float \<open>e \<ge> 0\<close> has a finite score: exactly 200 when
  \<open>e = 0\<close>, and \<open>- log10 e\<close> otherwise. The score is at least 0 exactly when \<open>e \<le> 1\<close>;
  an e-value above 1 has a negative score.
\<close>

theorem multi_blast_scores:
  assumes "multi_blast f blaster fs ql qt db rp cpu rbe = (fs', Inr t)"
    and "h \<in> set t" and "evalue h = Some s" and "f s = Some (Fin e)" and "0 \<le> e"
  shows "e_score h = Fin (if e = 0 then 200 else - log 10 e)
    \<and> (e = 0 \<longrightarrow> e_score h = Fin 200)
    \<and> (np_le (Fin 0) (e_score h) \<longleftrightarrow> e \<le> 1)"
proof -
  from multi_blast_rows [OF assms(1,2)] assms(3,4)
  have "e_score h = e_score_of_evalue (Fin e)"
    by auto
  with assms(5) have sc: "e_score h = Fin (if e = 0 then 200 else - log 10 e)"
    by (simp add: e_score_of_evalue_nonneg)
  have "0 \<le> - log 10 e \<longleftrightarrow> e \<le> 1" if "0 < e"
    using that by simp
  with sc assms(5) show ?thesis
    by (cases "e = 0") auto
qed

theorem multi_blast_scores_witness:
  "(0::real) \<le> 0 \<and> hit_zero \<in> set [hit_zero, hit_ten] \<and> evalue hit_zero = Some ''0.0''
   \<and> float_of_sample ''0.0'' = Some (Fin 0) \<and> e_score hit_zero = Fin 200
   \<and> np_le (Fin 0) (e_score hit_zero)"
proof -
  define run where "run = multi_blast float_of_sample two_hit_blaster empty_fs [''g1'']
     [''g1'' \<mapsto> ''MKV''] ''db/refseq'' ''out'' 1 True"
  have r: "run = (fst run, Inr [hit_zero, hit_ten])"
    using two_hit_run unfolding run_def by (simp add: prod_eq_iff)
  have m: "hit_zero \<in> set [hit_zero, hit_ten]" by simp
  have ev: "evalue hit_zero = Some ''0.0''" by (simp add: hit_zero_def)
  have fl: "float_of_sample ''0.0'' = Some (Fin 0)" by (simp add: float_of_sample_def)
  have z: "(0::real) \<le> 0" by simp
  from multi_blast_scores [OF r [unfolded run_def] m ev fl z]
  have "e_score hit_zero = Fin 200" and "np_le (Fin 0) (e_score hit_zero)"
    by simp_all
  with m ev fl z show ?thesis by blast
qed

text \<open>
  Claim C4 at its failing input: one query, one worker, a BLAST script that writes an
  error message, and \<^verbatim>\<open>raise_blast_error\<close> true. \<^verbatim>\<open>multi_blast\<close> raises
  \<^verbatim>\<open>RuntimeError\<close>, and the working directory that it created is still there in the
  file system it leaves behind, with the sequence file of the chunk in it.
\<close>

theorem multi_blast_error_keeps_directory:
  "snd (multi_blast float_of_sample failing_blaster empty_fs [''g1''] [''g1'' \<mapsto> ''MKV'']
          ''db/refseq'' ''out'' 1 True) = Inl (RuntimeError ''blast had an error message'')
   \<and> isdir (fst (multi_blast float_of_sample failing_blaster empty_fs [''g1''] [''g1'' \<mapsto> ''MKV'']
          ''db/refseq'' ''out'' 1 True)) ''out/multi_blast_files''
   \<and> files (fst (multi_blast float_of_sample failing_blaster empty_fs [''g1''] [''g1'' \<mapsto> ''MKV'']
          ''db/refseq'' ''out'' 1 True)) ''out/multi_blast_files/tmp_seq_0.faa''
       = Some (''>g1'' @ [CHR 0x0A] @ ''MKV'' @ [CHR 0x0A])"
  by (simp add: multi_blast_def partition_one Let_def failing_blaster_def empty_fs_def isdir_def
      makedirs_def write_file_def read_file_def enumerate_eq_zip py_slice_def str_of_nat_0)

section \<open>Properties of refseq_to_reactions\<close>

text \<open>
  Claim C3 at its failing input: two hits of one gene against two reference sequences of
  the same reaction. \<^verbatim>\<open>refseq_to_reactions\<close> returns both rows for the pair
  (\<^verbatim>\<open>g1\<close>, 7), in the order of the input, the lower score first: the table is neither
  ordered by descending score nor free of duplicates of a (query, reaction) pair.
\<close>

theorem refseq_to_reactions_keeps_duplicates:
  "refseq_to_reactions sample_join [hit_r1, hit_r2] ''subject acc.''
     = Inr [blast_hit.extend hit_r1 \<lparr>reaction_id = Some 7\<rparr>,
            blast_hit.extend hit_r2 \<lparr>reaction_id = Some 7\<rparr>]
   \<and> map (\<lambda>r. (query_acc r, reaction_id r, e_score r))
         (projr (refseq_to_reactions sample_join [hit_r1, hit_r2] ''subject acc.''))
     = [(Some ''g1'', Some 7, Fin 50), (Some ''g1'', Some 7, Fin 90)]"
  by (simp add: refseq_to_reactions_def merge_left_def merge_key_def blast_columns_def
      sample_join_def hit_r1_def hit_r2_def blast_hit.extend_def Let_def)

section \<open>Properties of accurate_mass_search\<close>










section \<open>Properties of connect_compound_to_reaction\<close>

subsection \<open>The drop of duplicates\<close>

lemma drop_duplicates_from_subset:
  "set (drop_duplicates_from seen rs) \<subseteq> set rs"
  by (induction rs arbitrary: seen) auto

lemma drop_duplicates_from_unseen:
  "x \<in> set (drop_duplicates_from seen rs) \<Longrightarrow> duplicate_columns x \<notin> set seen"
proof (induction rs arbitrary: seen)
  case Nil
  then show ?case by simp
next
  case (Cons r rs)
  show ?case
  proof (cases "duplicate_columns r \<in> set seen")
    case True
    with Cons.prems have "x \<in> set (drop_duplicates_from seen rs)" by simp
    then show ?thesis by (rule Cons.IH)
  next
    case False
    with Cons.prems
    consider "x = r" | "x \<in> set (drop_duplicates_from (duplicate_columns r # seen) rs)"
      by auto
    then show ?thesis
    proof cases
      case 1
      with False show ?thesis by simp
    next
      case 2
      from Cons.IH [OF this] show ?thesis by simp
    qed
  qed
qed

lemma drop_duplicates_from_distinct:
  "distinct (map duplicate_columns (drop_duplicates_from seen rs))"
proof (induction rs arbitrary: seen)
  case Nil
  then show ?case by simp
next
  case (Cons r rs)
  have "duplicate_columns r \<notin> duplicate_columns ` set (drop_duplicates_from (duplicate_columns r # seen) rs)"
    by (auto dest: drop_duplicates_from_unseen)
  with Cons.IH show ?case by simp
qed

lemma drop_duplicates_from_sorted:
  "sorted (map f rs) \<Longrightarrow> sorted (map f (drop_duplicates_from seen rs))"
proof (induction rs arbitrary: seen)
  case Nil
  then show ?case by simp
next
  case (Cons r rs)
  then have tail: "sorted (map f rs)" and le: "\<forall>y \<in> set rs. f r \<le> f y"
    by simp_all
  from le drop_duplicates_from_subset
  have "\<forall>y \<in> set (drop_duplicates_from (duplicate_columns r # seen) rs). f r \<le> f y"
    by blast
  with Cons.IH [OF tail] show ?case by simp
qed

lemma drop_duplicates_from_first:
  assumes "duplicate_columns x \<notin> set seen"
    and "\<forall>y \<in> set pre. duplicate_columns y \<noteq> duplicate_columns x"
  shows "x \<in> set (drop_duplicates_from seen (pre @ x # post))"
  using assms by (induction pre arbitrary: seen) auto

lemma distinct_map_filter_single:
  "distinct (map f xs) \<Longrightarrow> x \<in> set xs \<Longrightarrow> filter (\<lambda>y. f y = f x) xs = [x]"
proof (induction xs)
  case Nil
  then show ?case by simp
next
  case (Cons a xs)
  show ?case
  proof (cases "a = x")
    case True
    with Cons.prems have "\<forall>y \<in> set xs. f y \<noteq> f x" by (auto simp: image_iff)
    then have "filter (\<lambda>y. f y = f x) xs = []" by (simp add: filter_empty_conv)
    with True show ?thesis by simp
  next
    case False
    with Cons.prems have "x \<in> set xs" and "f a \<noteq> f x" by auto
    with Cons show ?thesis by simp
  qed
qed

subsection \<open>The rows that the searches collect\<close>

text \<open>
  The rows that one call of \<^verbatim>\<open>enumerate_compound_results\<close> appends, and the
  property that all collected rows share: the compound is the input compound and the note
  is one of the two notes.
\<close>

lemma enumerate_appends:
  "\<exists>new. enumerate_compound_results c rows idxs lv nb nt = rows @ new
      \<and> (\<forall>y \<in> set new. cr_original_compound y = c \<and> cr_level y = lv \<and> cr_note y = nt)"
  by (cases idxs) (auto simp: enumerate_compound_results_def)

lemma neighbor_step_appends:
  "\<exists>new. neighbor_step env c t lv rows n = rows @ new
      \<and> (\<forall>y \<in> set new. cr_original_compound y = c \<and> cr_level y = lv
             \<and> cr_note y \<in> {''direct'', ''flat tautomer''})"
proof -
  obtain new1 where n1: "enumerate_compound_results c rows (find_reactions_of_compound env n) lv n ''direct''
        = rows @ new1"
    and p1: "\<forall>y \<in> set new1. cr_original_compound y = c \<and> cr_level y = lv \<and> cr_note y = ''direct''"
    using enumerate_appends by blast
  show ?thesis
  proof (cases "t \<and> mol_from_inchikey env n \<noteq> None")
    case False
    with n1 p1 show ?thesis
      by (auto simp: neighbor_step_def Let_def split: option.splits)
  next
    case True
    then obtain mol where mol: "mol_from_inchikey env n = Some mol" and t: t
      by auto
    obtain new2 where n2: "enumerate_compound_results c (rows @ new1)
          (find_reactions_of_compound env (join ''|'' (tautomer_finder env mol))) lv n ''flat tautomer''
        = (rows @ new1) @ new2"
      and p2: "\<forall>y \<in> set new2. cr_original_compound y = c \<and> cr_level y = lv
                 \<and> cr_note y = ''flat tautomer''"
      using enumerate_appends by blast
    have "neighbor_step env c t lv rows n = rows @ (new1 @ new2)"
      using n1 n2 mol t by (simp add: neighbor_step_def Let_def)
    moreover have "\<forall>y \<in> set (new1 @ new2). cr_original_compound y = c \<and> cr_level y = lv
             \<and> cr_note y \<in> {''direct'', ''flat tautomer''}"
      using p1 p2 by auto
    ultimately show ?thesis by blast
  qed
qed

lemma neighbor_level_loop_appends:
  "\<exists>new. foldl (neighbor_step env c t lv) rows ns = rows @ new
      \<and> (\<forall>y \<in> set new. cr_original_compound y = c \<and> cr_level y = lv
             \<and> cr_note y \<in> {''direct'', ''flat tautomer''})"
proof (induction ns arbitrary: rows)
  case Nil
  then show ?case by simp
next
  case (Cons n ns)
  obtain new1 where s1: "neighbor_step env c t lv rows n = rows @ new1"
    and p1: "\<forall>y \<in> set new1. cr_original_compound y = c \<and> cr_level y = lv
             \<and> cr_note y \<in> {''direct'', ''flat tautomer''}"
    using neighbor_step_appends by blast
  obtain new2 where s2: "foldl (neighbor_step env c t lv) (rows @ new1) ns = (rows @ new1) @ new2"
    and p2: "\<forall>y \<in> set new2. cr_original_compound y = c \<and> cr_level y = lv
             \<and> cr_note y \<in> {''direct'', ''flat tautomer''}"
    using Cons.IH by blast
  have "foldl (neighbor_step env c t lv) rows (n # ns) = rows @ (new1 @ new2)"
    using s1 s2 by simp
  moreover have "\<forall>y \<in> set (new1 @ new2). cr_original_compound y = c \<and> cr_level y = lv
             \<and> cr_note y \<in> {''direct'', ''flat tautomer''}"
    using p1 p2 by auto
  ultimately show ?case by blast
qed

lemma neighbor_loop_appends:
  "\<exists>new. foldl (\<lambda>results (lv, neighbor_compound_list).
                   foldl (neighbor_step env c t lv) results neighbor_compound_list) rows groups
        = rows @ new
      \<and> (\<forall>y \<in> set new. cr_original_compound y = c
             \<and> cr_note y \<in> {''direct'', ''flat tautomer''})"
proof (induction groups arbitrary: rows)
  case Nil
  then show ?case by simp
next
  case (Cons g groups)
  obtain lv ns where g: "g = (lv, ns)" by (cases g)
  obtain new1 where s1: "foldl (neighbor_step env c t lv) rows ns = rows @ new1"
    and p1: "\<forall>y \<in> set new1. cr_original_compound y = c \<and> cr_level y = lv
             \<and> cr_note y \<in> {''direct'', ''flat tautomer''}"
    using neighbor_level_loop_appends by blast
  obtain new2 where s2: "foldl (\<lambda>results (lv, neighbor_compound_list).
                   foldl (neighbor_step env c t lv) results neighbor_compound_list)
                 (rows @ new1) groups = (rows @ new1) @ new2"
    and p2: "\<forall>y \<in> set new2. cr_original_compound y = c
             \<and> cr_note y \<in> {''direct'', ''flat tautomer''}"
    using Cons.IH by blast
  have "foldl (\<lambda>results (lv, neighbor_compound_list).
                   foldl (neighbor_step env c t lv) results neighbor_compound_list) rows (g # groups)
        = rows @ (new1 @ new2)"
    using s1 s2 g by simp
  moreover have "\<forall>y \<in> set (new1 @ new2). cr_original_compound y = c
             \<and> cr_note y \<in> {''direct'', ''flat tautomer''}"
    using p1 p2 by auto
  ultimately show ?case by blast
qed

lemma find_first:
  "\<forall>y \<in> set ys. \<not> P y \<Longrightarrow> P x \<Longrightarrow> find P (ys @ x # zs) = Some x"
  by (induction ys) simp_all

lemma find_direct_row:
  "r \<in> set rs \<Longrightarrow>
   find (\<lambda>y. duplicate_columns y = (c, Some r))
     (map (\<lambda>i. \<lparr>cr_original_compound = c, cr_level = 0, cr_neighbor = [],
                   cr_reaction_id = Some i, cr_note = ''direct''\<rparr>) rs @ zs)
   = Some \<lparr>cr_original_compound = c, cr_level = 0, cr_neighbor = [],
            cr_reaction_id = Some r, cr_note = ''direct''\<rparr>"
  by (induction rs) (auto simp: duplicate_columns_def)

lemma least_sort_columns:
  assumes "sort_columns x \<le> (''direct'', 0)"
    and "cr_note x \<in> {''direct'', ''flat tautomer''}"
  shows "sort_columns x = (''direct'', 0)"
  using assms by (auto simp: sort_columns_def)

text \<open>
  The rows that a run on the full path collects, before the sort: the direct rows of the
  compound itself come first, in the order of the reaction indices.
\<close>

lemma collected_rows:
  assumes "inchikey_test c"
    and "\<not> (t \<and> mol_from_inchikey env c = None)"
    and "find_reactions_of_compound env (join ''-'' (take 2 (split_on CHR ''-'' c))) = Some rs"
  shows "\<exists>more. connect_compound_to_reaction env c t L
           = Inr (drop_duplicates (sort_values
               (map (\<lambda>i. \<lparr>cr_original_compound = c, cr_level = 0, cr_neighbor = [],
                             cr_reaction_id = Some i, cr_note = ''direct''\<rparr>) rs @ more)))
      \<and> (\<forall>y \<in> set more. cr_original_compound y = c
             \<and> cr_note y \<in> {''direct'', ''flat tautomer''})"
proof -
  define rows0 where "rows0 = map (\<lambda>i. \<lparr>cr_original_compound = c, cr_level = 0, cr_neighbor = [],
                             cr_reaction_id = Some i, cr_note = ''direct''\<rparr>) rs"
  have r0: "enumerate_compound_results c [] (Some rs) 0 [] ''direct'' = rows0"
    by (simp add: enumerate_compound_results_def rows0_def)
  define rows1 where "rows1 =
     (if t then enumerate_compound_results c rows0
                  (find_reactions_of_compound env
                     (join ''|'' (tautomer_finder env (the (mol_from_inchikey env c)))))
                  0 [] ''flat tautomer''
      else rows0)"
  obtain new1 where n1: "rows1 = rows0 @ new1"
    and p1: "\<forall>y \<in> set new1. cr_original_compound y = c
               \<and> cr_note y \<in> {''direct'', ''flat tautomer''}"
  proof (cases t)
    case True
    obtain new where "enumerate_compound_results c rows0
                  (find_reactions_of_compound env
                     (join ''|'' (tautomer_finder env (the (mol_from_inchikey env c)))))
                  0 [] ''flat tautomer'' = rows0 @ new"
      and "\<forall>y \<in> set new. cr_original_compound y = c \<and> cr_level y = 0
             \<and> cr_note y = ''flat tautomer''"
      using enumerate_appends by blast
    with True that [of new] show ?thesis
      by (simp add: rows1_def)
  next
    case False
    with that [of "[]"] show ?thesis
      by (simp add: rows1_def)
  qed
  define rows2 where "rows2 =
     (if L \<noteq> 0
      then foldl (\<lambda>results (lv, neighbor_compound_list).
                    foldl (neighbor_step env c t lv) results neighbor_compound_list)
             rows1 (neighbor_finder env c L)
      else rows1)"
  obtain new2 where n2: "rows2 = rows1 @ new2"
    and p2: "\<forall>y \<in> set new2. cr_original_compound y = c
               \<and> cr_note y \<in> {''direct'', ''flat tautomer''}"
  proof (cases "L \<noteq> 0")
    case True
    obtain new where "foldl (\<lambda>results (lv, neighbor_compound_list).
                    foldl (neighbor_step env c t lv) results neighbor_compound_list)
             rows1 (neighbor_finder env c L) = rows1 @ new"
      and "\<forall>y \<in> set new. cr_original_compound y = c
             \<and> cr_note y \<in> {''direct'', ''flat tautomer''}"
      using neighbor_loop_appends by blast
    with True that [of new] show ?thesis
      by (simp add: rows2_def)
  next
    case False
    with that [of "[]"] show ?thesis
      by (simp add: rows2_def)
  qed
  have "connect_compound_to_reaction env c t L = Inr (drop_duplicates (sort_values rows2))"
    using assms r0
    by (cases t) (auto simp: connect_compound_to_reaction_def Let_def rows1_def rows2_def)
  then have "connect_compound_to_reaction env c t L
      = Inr (drop_duplicates (sort_values (rows0 @ (new1 @ new2))))"
    by (simp add: n1 n2)
  moreover have "\<forall>y \<in> set (new1 @ new2). cr_original_compound y = c
             \<and> cr_note y \<in> {''direct'', ''flat tautomer''}"
    using p1 p2 by auto
  ultimately show ?thesis
    unfolding rows0_def by blast
qed

lemma sorted_then_deduplicated:
  assumes d_in: "d \<in> set rows0" and rows: "rows = rows0 @ rest"
    and key0: "\<forall>y \<in> set rows0. sort_columns y = (''direct'', 0)"
    and note_ok: "\<forall>y \<in> set rows. cr_note y \<in> {''direct'', ''flat tautomer''}"
    and first: "find (\<lambda>y. duplicate_columns y = duplicate_columns d) (rows0 @ filter (\<lambda>y. sort_columns y = (''direct'', 0)) rest) = Some d"
  shows "filter (\<lambda>y. duplicate_columns y = duplicate_columns d) (drop_duplicates (sort_values rows)) = [d]"
proof -
  define s where "s = sort_values rows"
  define K where "K = (\<lambda>y. sort_columns y = (''direct'', 0::nat))"
  define P where "P = (\<lambda>y. duplicate_columns y = duplicate_columns d)"
  have set_s: "set s = set rows"
    by (simp add: s_def sort_values_def)
  have sorted_s: "sorted (map sort_columns s)"
    by (simp add: s_def sort_values_def)
  have "d \<in> set s"
    using d_in rows set_s by simp
  then have "\<exists>y \<in> set s. P y"
    by (auto simp: P_def)
  then obtain pre x post where split: "s = pre @ x # post" and Px: "P x"
    and npre: "\<forall>y \<in> set pre. \<not> P y"
    using split_list_first_prop [of s P] by blast
  have "d \<notin> set pre"
    using npre by (auto simp: P_def)
  with \<open>d \<in> set s\<close> split have "d = x \<or> d \<in> set post"
    by auto
  moreover have "\<forall>y \<in> set post. sort_columns x \<le> sort_columns y"
    using sorted_s unfolding split by (simp add: sorted_append)
  ultimately have "sort_columns x \<le> sort_columns d"
    by auto
  moreover have "sort_columns d = (''direct'', 0)"
    using key0 d_in by simp
  moreover have "x \<in> set rows"
    using set_s [symmetric] by (simp add: split)
  then have "cr_note x \<in> {''direct'', ''flat tautomer''}"
    using note_ok by blast
  ultimately have Kx: "K x"
    unfolding K_def by (simp add: least_sort_columns)
  have "filter K s = filter K rows"
    unfolding s_def sort_values_def K_def by (rule sort_key_stable)
  also have "\<dots> = rows0 @ filter K rest"
    using key0 by (simp add: rows K_def)
  finally have stable: "filter K s = rows0 @ filter K rest" .
  have "filter K s = filter K pre @ x # filter K post"
    using Kx by (simp add: split)
  moreover have "\<forall>y \<in> set (filter K pre). \<not> P y"
    using npre by simp
  ultimately have "find P (filter K s) = Some x"
    using Px by (simp add: find_first)
  with stable first have "x = d"
    by (simp add: P_def K_def)
  with split npre have "d \<in> set (drop_duplicates_from [] s)"
    by (simp add: drop_duplicates_from_first P_def)
  with drop_duplicates_from_distinct [of "[]" s]
  have "filter (\<lambda>y. duplicate_columns y = duplicate_columns d) (drop_duplicates_from [] s) = [d]"
    by (rule distinct_map_filter_single)
  then show ?thesis
    by (simp add: drop_duplicates_def s_def)
qed

text \<open>
  Claim C6. On the path of \<^verbatim>\<open>connect_compound_to_reaction\<close> that searches the
  neighbours (a valid identifier, and the compound found in the compound table when
  tautomers are asked for), the returned table is ascending in (note, level) and holds no
  two rows with the same (original_compound, reaction_id). For a reaction \<open>r\<close> that the
  compound reaches by a direct match, the only row of the table with reaction \<open>r\<close> is
  the direct row of level 0 (with no neighbour); so a row that reaches \<open>r\<close> through a
  neighbour of level 2, direct or as a flat tautomer, is not in the table.
\<close>

theorem connect_keeps_direct_row:
  assumes "inchikey_test c"
    and "\<not> (t \<and> mol_from_inchikey env c = None)"
    and "find_reactions_of_compound env (join ''-'' (take 2 (split_on CHR ''-'' c))) = Some rs"
    and "r \<in> set rs"
  shows "\<exists>res. connect_compound_to_reaction env c t L = Inr res
      \<and> sorted (map sort_columns res)
      \<and> distinct (map duplicate_columns res)
      \<and> filter (\<lambda>y. cr_reaction_id y = Some r) res
          = [\<lparr>cr_original_compound = c, cr_level = 0, cr_neighbor = [],
              cr_reaction_id = Some r, cr_note = ''direct''\<rparr>]
      \<and> \<lparr>cr_original_compound = c, cr_level = 2, cr_neighbor = n,
           cr_reaction_id = Some r, cr_note = ''direct''\<rparr> \<notin> set res
      \<and> \<lparr>cr_original_compound = c, cr_level = 2, cr_neighbor = n,
           cr_reaction_id = Some r, cr_note = ''flat tautomer''\<rparr> \<notin> set res"
proof -
  define mk where "mk = (\<lambda>i. \<lparr>cr_original_compound = c, cr_level = 0, cr_neighbor = [],
                             cr_reaction_id = Some i, cr_note = ''direct''\<rparr>)"
  define d where "d = mk r"
  from collected_rows [OF assms(1-3), of L] obtain rest
    where run: "connect_compound_to_reaction env c t L
                  = Inr (drop_duplicates (sort_values (map mk rs @ rest)))"
      and rest_ok: "\<forall>y \<in> set rest. cr_original_compound y = c
                   \<and> cr_note y \<in> {''direct'', ''flat tautomer''}"
    unfolding mk_def by blast
  define rows where "rows = map mk rs @ rest"
  define res where "res = drop_duplicates (sort_values rows)"
  have all: "\<forall>y \<in> set rows. cr_original_compound y = c
                \<and> cr_note y \<in> {''direct'', ''flat tautomer''}"
    using rest_ok by (auto simp: rows_def mk_def)
  have dup_d: "duplicate_columns d = (c, Some r)"
    by (simp add: d_def mk_def duplicate_columns_def)
  have "find (\<lambda>y. duplicate_columns y = (c, Some r))
          (map mk rs @ filter (\<lambda>y. sort_columns y = (''direct'', 0)) rest) = Some d"
    unfolding mk_def d_def using assms(4) by (rule find_direct_row)
  then have single: "filter (\<lambda>y. duplicate_columns y = duplicate_columns d) res = [d]"
    unfolding res_def
    using assms(4) all
    by (intro sorted_then_deduplicated [where ?rows0.0 = "map mk rs" and rest = rest])
       (auto simp: rows_def d_def mk_def sort_columns_def dup_d [unfolded d_def mk_def])
  have "set res \<subseteq> set rows"
    using drop_duplicates_from_subset [of "[]" "sort_values rows"]
    by (simp add: res_def drop_duplicates_def sort_values_def)
  with all have "\<forall>y \<in> set res. cr_original_compound y = c"
    by blast
  then have "filter (\<lambda>y. cr_reaction_id y = Some r) res
      = filter (\<lambda>y. duplicate_columns y = duplicate_columns d) res"
    unfolding dup_d by (intro filter_cong) (auto simp: duplicate_columns_def)
  with single have only: "filter (\<lambda>y. cr_reaction_id y = Some r) res = [d]"
    by simp
  have gone: "y \<notin> set res" if "cr_reaction_id y = Some r" "cr_level y = 2" for y
  proof
    assume "y \<in> set res"
    with that have "y \<in> set (filter (\<lambda>y. cr_reaction_id y = Some r) res)"
      by simp
    with only have "y = d" by simp
    with that show False by (simp add: d_def mk_def)
  qed
  have srt: "sorted (map sort_columns res)"
    unfolding res_def drop_duplicates_def sort_values_def
    by (rule drop_duplicates_from_sorted) simp
  have dst: "distinct (map duplicate_columns res)"
    unfolding res_def drop_duplicates_def by (rule drop_duplicates_from_distinct)
  have run': "connect_compound_to_reaction env c t L = Inr res"
    using run by (simp add: res_def rows_def)
  have only': "filter (\<lambda>y. cr_reaction_id y = Some r) res
          = [\<lparr>cr_original_compound = c, cr_level = 0, cr_neighbor = [],
              cr_reaction_id = Some r, cr_note = ''direct''\<rparr>]"
    using only by (simp add: d_def mk_def)
  have g1: "\<lparr>cr_original_compound = c, cr_level = 2, cr_neighbor = n,
           cr_reaction_id = Some r, cr_note = ''direct''\<rparr> \<notin> set res"
    by (rule gone) simp_all
  have g2: "\<lparr>cr_original_compound = c, cr_level = 2, cr_neighbor = n,
           cr_reaction_id = Some r, cr_note = ''flat tautomer''\<rparr> \<notin> set res"
    by (rule gone) simp_all
  from run' srt dst only' g1 g2 show ?thesis
    by blast
qed

lemma sample_direct:
  "find_reactions_of_compound sample_env (join ''-'' (take 2 (split_on CHR ''-'' glucose)))
     = Some [7, 9]"
  by code_simp

lemma sample_level2:
  "find_reactions_of_compound sample_env ''BBBBBBBBBBBBBB'' = Some [7]"
  by code_simp

lemma sample_run:
  "connect_compound_to_reaction sample_env glucose False 2
       = Inr [result_row 0 [] (Some 7) ''direct'', result_row 0 [] (Some 9) ''direct'',
              result_row 1 ''AAAAAAAAAAAAAA'' None ''direct'']"
  by code_simp

theorem connect_keeps_direct_row_witness:
  "inchikey_test glucose
   \<and> find_reactions_of_compound sample_env (join ''-'' (take 2 (split_on CHR ''-'' glucose)))
       = Some [7, 9]
   \<and> neighbor_finder sample_env glucose 2 ! 2 = (2, [''BBBBBBBBBBBBBB''])
   \<and> find_reactions_of_compound sample_env ''BBBBBBBBBBBBBB'' = Some [7]
   \<and> connect_compound_to_reaction sample_env glucose False 2
       = Inr [result_row 0 [] (Some 7) ''direct'', result_row 0 [] (Some 9) ''direct'',
              result_row 1 ''AAAAAAAAAAAAAA'' None ''direct'']"
proof -
  have valid: "inchikey_test glucose"
    by (simp add: inchikey_test_def glucose_def is_upper_def)
  have full: "\<not> (False \<and> mol_from_inchikey sample_env glucose = None)"
    by simp
  have mem: "(7::int) \<in> set [7, 9]"
    by simp
  from connect_keeps_direct_row [OF valid full sample_direct mem, of 2 "''BBBBBBBBBBBBBB''"]
  obtain res where "connect_compound_to_reaction sample_env glucose False 2 = Inr res"
    by blast
  moreover note sample_run
  ultimately show ?thesis
    using valid sample_direct sample_level2 by (simp add: sample_env_def)
qed

end
